theory Spec2Isabelle
  imports Main "HOL-Library.AList"
begin

section \<open>The TCP server of tornado/tcpserver.py\<close>

text \<open>
  A shallow embedding of the class \<open>TCPServer\<close>. The server object is a record that every
  method takes and returns. Everything outside the file (the IOLoop, the sockets, the
  streams, the ssl module, the file system, process forking, the log) is an external
  collaborator: a call made to one of them is recorded, in program order, in the list of
  calls that a method returns next to the new state, and what such a call answers is a
  parameter of the model.
\<close>

subsection \<open>Data\<close>

text \<open>A listening socket object: its identity and what \<open>sock.fileno()\<close> returns.\<close>

datatype socket = Socket (sock_id: nat) (fileno: int)

text \<open>An IOLoop object, an accepted connection (a socket object) and a peer address.\<close>

type_synonym ioloop = nat
type_synonym connection = nat
type_synonym address = "string \<times> int"

text \<open>
  The argument \<open>ssl_options\<close>, when it is not \<open>None\<close>: a dict of keyword arguments for
  \<open>ssl.wrap_socket\<close>, or a value for which \<open>isinstance(ssl_options, dict)\<close> is false
  (an \<open>ssl.SSLContext\<close>).
\<close>

datatype ssl_options = SSLDict "string \<rightharpoonup> string" | SSLContext

text \<open>
  The exceptions the file raises, names or lets through.
  \<open>SSLError a\<close> is an \<open>ssl.SSLError\<close> with \<open>err.args[0] = a\<close>;
  \<open>SocketError n\<close> is a \<open>socket.error\<close> that is not an \<open>ssl.SSLError\<close>, for which
  \<open>errno_from_exception\<close> (of tornado.util) returns \<open>n\<close>;
  \<open>OtherException\<close> is any other instance of the class \<open>Exception\<close>;
  \<open>SystemExiting\<close> is a \<open>BaseException\<close> that is not an \<open>Exception\<close>
  (\<open>SystemExit\<close>, \<open>KeyboardInterrupt\<close>, \<open>GeneratorExit\<close>).
\<close>

datatype exn =
    KeyError string
  | ValueError string
  | AssertionError
  | AttributeError
  | NotImplementedError
  | SSLError int
  | SocketError "int option"
  | OtherException string
  | SystemExiting string

text \<open>\<open>isinstance(e, Exception)\<close>, the test of the clause \<open>except Exception\<close>.\<close>

fun is_Exception :: "exn \<Rightarrow> bool" where
  "is_Exception (SystemExiting n) = False"
| "is_Exception e = True"

text \<open>The constants \<open>ssl.SSL_ERROR_EOF\<close>, \<open>errno.ECONNABORTED\<close> and \<open>errno.EINVAL\<close> (Linux).\<close>

definition SSL_ERROR_EOF :: int where
  "SSL_ERROR_EOF = 8"

definition ECONNABORTED :: int where
  "ECONNABORTED = 103"

definition EINVAL :: int where
  "EINVAL = 22"

text \<open>The keyword arguments with which \<open>IOStream\<close> or \<open>SSLIOStream\<close> is constructed.\<close>

datatype stream_class = IOStream | SSLIOStream

record stream =
  stream_class :: stream_class
  stream_connection :: connection
  stream_io_loop :: "ioloop option"
  stream_max_buffer_size :: "int option"
  stream_read_chunk_size :: "int option"

text \<open>The calls made to the external collaborators.\<close>

datatype call =
    Add_accept_handler socket ioloop
  | Remove_handler ioloop int
  | Sock_close socket
  | Fork_processes "int option"
  | Connection_close connection
  | New_stream stream
  | Handle_stream stream address
  | App_log_error string

text \<open>The attributes of a \<open>TCPServer\<close> object.\<close>

record server =
  io_loop :: "ioloop option"
  ssl_options :: "ssl_options option"
  sockets :: "(int \<times> socket) list"
  pending_sockets :: "socket list"
  started :: bool
  max_buffer_size :: "int option"
  read_chunk_size :: "int option"

text \<open>
  \<open>sockets\<close> is the dict \<open>self._sockets\<close> (fd to socket object) as an association list
  in the order in which \<open>items()\<close> yields it, the insertion order of Python 3.7 and later;
  \<open>self._sockets[fd] = sock\<close> is \<open>AList.update\<close>, which replaces the value of a key
  that is present and appends a new key.
\<close>

text \<open>
  What the surroundings answer: whether the module \<open>ssl\<close> was imported, what
  \<open>ssl_wrap_socket(connection, ssl_options, server_side, do_handshake_on_connect)\<close>
  returns or raises, whether the stream constructor raises, and whether the
  \<open>handle_stream\<close> of the subclass raises.
\<close>

record env =
  ssl_module :: bool
  ssl_wrap_socket :: "connection \<Rightarrow> ssl_options \<Rightarrow> bool \<Rightarrow> bool \<Rightarrow> exn + connection"
  stream_init :: "stream \<Rightarrow> exn option"
  handle_stream_impl :: "stream \<Rightarrow> address \<Rightarrow> exn option"

subsection \<open>The constructor\<close>

text \<open>
  \<open>TCPServer.__init__\<close>. \<open>path_exists\<close> is \<open>os.path.exists\<close>. The method returns the new
  object, or raises before there is one.
\<close>

definition init ::
  "(string \<Rightarrow> bool) \<Rightarrow> ioloop option \<Rightarrow> ssl_options option \<Rightarrow> int option \<Rightarrow> int option
    \<Rightarrow> exn + server" where
  "init path_exists io_loop_arg ssl_options_arg max_buffer_size_arg read_chunk_size_arg =
    (let self = \<lparr> io_loop = io_loop_arg, ssl_options = ssl_options_arg, sockets = [],
                   pending_sockets = [], started = False,
                   max_buffer_size = max_buffer_size_arg, read_chunk_size = None \<rparr>
     in case ssl_options_arg of
          Some (SSLDict d) \<Rightarrow>
            (case d ''certfile'' of
               None \<Rightarrow> Inl (KeyError ''certfile'')
             | Some certfile \<Rightarrow>
                 if \<not> path_exists certfile then Inl (ValueError certfile)
                 else (case d ''keyfile'' of
                         Some keyfile \<Rightarrow>
                           if \<not> path_exists keyfile then Inl (ValueError keyfile)
                           else Inr self
                       | None \<Rightarrow> Inr self))
        | _ \<Rightarrow> Inr self)"

subsection \<open>Registering listening sockets\<close>

text \<open>
  The loop of \<open>add_sockets\<close>: for each socket, in order, store it under its descriptor
  and call \<open>add_accept_handler\<close>.
\<close>

fun add_sockets_loop ::
  "ioloop \<Rightarrow> (int \<times> socket) list \<Rightarrow> socket list \<Rightarrow> (int \<times> socket) list \<times> call list" where
  "add_sockets_loop l reg [] = (reg, [])"
| "add_sockets_loop l reg (sock # rest) =
     (case add_sockets_loop l (AList.update (fileno sock) sock reg) rest of
        (reg', calls) \<Rightarrow> (reg', Add_accept_handler sock l # calls))"

text \<open>
  The first statement of \<open>add_sockets\<close>: an \<open>io_loop\<close> that is \<open>None\<close> becomes
  \<open>IOLoop.current()\<close>, whose value is the parameter \<open>current\<close>.
\<close>

definition io_loop_or_current :: "ioloop \<Rightarrow> server \<Rightarrow> ioloop" where
  "io_loop_or_current current self = (case io_loop self of None \<Rightarrow> current | Some l \<Rightarrow> l)"

text \<open>\<open>TCPServer.add_sockets\<close>.\<close>

definition add_sockets :: "ioloop \<Rightarrow> server \<Rightarrow> socket list \<Rightarrow> server \<times> call list" where
  "add_sockets current self socks =
    (let l = io_loop_or_current current self
     in case add_sockets_loop l (sockets self) socks of
          (reg, calls) \<Rightarrow> (self\<lparr> io_loop := Some l, sockets := reg \<rparr>, calls))"


text \<open>
  \<open>TCPServer.listen\<close> and \<open>TCPServer.bind\<close>; \<open>socks\<close> is the list that \<open>bind_sockets\<close>
  (of tornado.netutil) returns for the port, address, family and backlog.
\<close>

definition listen :: "ioloop \<Rightarrow> server \<Rightarrow> socket list \<Rightarrow> server \<times> call list" where
  "listen current self socks = add_sockets current self socks"

definition bind :: "ioloop \<Rightarrow> server \<Rightarrow> socket list \<Rightarrow> server \<times> call list" where
  "bind current self socks =
    (if started self then add_sockets current self socks
     else (self\<lparr> pending_sockets := pending_sockets self @ socks \<rparr>, []))"

subsection \<open>Start and stop\<close>

text \<open>
  \<open>TCPServer.start\<close>, as the process sees it in which \<open>fork_processes\<close> returns.
\<close>

definition start :: "ioloop \<Rightarrow> server \<Rightarrow> int option \<Rightarrow> exn + server \<times> call list" where
  "start current self num_processes =
    (if started self then Inl AssertionError
     else
       let self1 = self\<lparr> started := True \<rparr>;
           forked = (if num_processes \<noteq> Some 1 then [Fork_processes num_processes] else []);
           socks = pending_sockets self1;
           self2 = self1\<lparr> pending_sockets := [] \<rparr>
       in case add_sockets current self2 socks of
            (self3, calls) \<Rightarrow> Inr (self3, forked @ calls))"

text \<open>
  The loop of \<open>stop\<close> over \<open>self._sockets.items()\<close>; \<open>self.io_loop.remove_handler\<close> on an
  \<open>io_loop\<close> that is still \<open>None\<close> raises AttributeError.
\<close>

fun stop_loop :: "ioloop option \<Rightarrow> (int \<times> socket) list \<Rightarrow> exn + call list" where
  "stop_loop l [] = Inr []"
| "stop_loop None ((fd, sock) # rest) = Inl AttributeError"
| "stop_loop (Some lp) ((fd, sock) # rest) =
     (case stop_loop (Some lp) rest of
        Inl e \<Rightarrow> Inl e
      | Inr calls \<Rightarrow> Inr (Remove_handler lp fd # Sock_close sock # calls))"

definition stop :: "server \<Rightarrow> exn + server \<times> call list" where
  "stop self =
    (case stop_loop (io_loop self) (sockets self) of
       Inl e \<Rightarrow> Inl e
     | Inr calls \<Rightarrow> Inr (self, calls))"

subsection \<open>The accept callback\<close>


text \<open>
  The clause \<open>except Exception\<close> at the end of \<open>_handle_connection\<close>: an instance of
  \<open>Exception\<close> is logged and the method returns, anything else goes on to the caller.
\<close>

definition except_Exception :: "exn \<Rightarrow> call list \<Rightarrow> (exn + unit) \<times> call list" where
  "except_Exception e calls =
    (if is_Exception e then (Inr (), calls @ [App_log_error ''Error in connection callback''])
     else (Inl e, calls))"

text \<open>
  The second \<open>try\<close> block of \<open>_handle_connection\<close>: construct the stream, an
  \<open>SSLIOStream\<close> when \<open>ssl_options\<close> is set and an \<open>IOStream\<close> otherwise, with the
  keyword arguments \<open>stream_args\<close>, and hand it to \<open>handle_stream\<close>.
\<close>

definition stream_args :: "server \<Rightarrow> connection \<Rightarrow> stream" where
  "stream_args self conn =
    \<lparr> stream_class = (if ssl_options self \<noteq> None then SSLIOStream else IOStream),
      stream_connection = conn,
      stream_io_loop = io_loop self,
      stream_max_buffer_size = max_buffer_size self,
      stream_read_chunk_size = read_chunk_size self \<rparr>"

definition build_and_handle ::
  "env \<Rightarrow> server \<Rightarrow> connection \<Rightarrow> address \<Rightarrow> (exn + unit) \<times> call list" where
  "build_and_handle env self conn addr =
    (let strm = stream_args self conn
     in case stream_init env strm of
          Some e \<Rightarrow> except_Exception e [New_stream strm]
        | None \<Rightarrow>
            (case handle_stream_impl env strm addr of
               Some e \<Rightarrow> except_Exception e [New_stream strm, Handle_stream strm addr]
             | None \<Rightarrow> (Inr (), [New_stream strm, Handle_stream strm addr])))"

text \<open>
  \<open>TCPServer._handle_connection\<close>. The result is \<open>Inl e\<close> when the exception \<open>e\<close> leaves
  the method and \<open>Inr ()\<close> when the method returns, with the calls made on the way.
\<close>

definition handle_connection ::
  "env \<Rightarrow> server \<Rightarrow> connection \<Rightarrow> address \<Rightarrow> (exn + unit) \<times> call list" where
  "handle_connection env self conn addr =
    (case ssl_options self of
       None \<Rightarrow> build_and_handle env self conn addr
     | Some opts \<Rightarrow>
         if \<not> ssl_module env then (Inl AssertionError, [])
         else
           (case ssl_wrap_socket env conn opts True False of
              Inr wrapped \<Rightarrow> build_and_handle env self wrapped addr
            | Inl (SSLError a) \<Rightarrow>
                if a = SSL_ERROR_EOF then (Inr (), [Connection_close conn])
                else (Inl (SSLError a), [])
            | Inl (SocketError n) \<Rightarrow>
                if n = Some ECONNABORTED \<or> n = Some EINVAL
                then (Inr (), [Connection_close conn])
                else (Inl (SocketError n), [])
            | Inl e \<Rightarrow> (Inl e, [])))"

subsection \<open>Concrete servers and surroundings\<close>

text \<open>
  The inputs at which the theorems below are evaluated: two file systems, the object
  \<open>TCPServer()\<close> and the states it reaches after \<open>add_socket\<close>, after \<open>bind\<close> and
  after \<open>start\<close>, a server with \<open>ssl_options\<close>, and surroundings in which everything
  succeeds, in which \<open>ssl_wrap_socket\<close> raises, and in which the handler raises.
\<close>

definition every_path_exists :: "string \<Rightarrow> bool" where
  "every_path_exists p = True"

definition no_path_exists :: "string \<Rightarrow> bool" where
  "no_path_exists p = False"

definition new_server :: server where
  "new_server = \<lparr> io_loop = None, ssl_options = None, sockets = [], pending_sockets = [],
                   started = False, max_buffer_size = None, read_chunk_size = None \<rparr>"

definition listening_server :: server where
  "listening_server = new_server\<lparr> io_loop := Some 1, sockets := [(5, Socket 0 5)] \<rparr>"

definition bound_server :: server where
  "bound_server = new_server\<lparr> pending_sockets := [Socket 0 5, Socket 1 6] \<rparr>"

definition started_server :: server where
  "started_server = listening_server\<lparr> started := True \<rparr>"

definition tls_server :: server where
  "tls_server = new_server\<lparr> io_loop := Some 1, ssl_options := Some SSLContext \<rparr>"

definition peer :: address where
  "peer = (''127.0.0.1'', 63959)"

definition quiet_env :: env where
  "quiet_env = \<lparr> ssl_module = True,
                  ssl_wrap_socket = (\<lambda>conn opts server_side handshake. Inr conn),
                  stream_init = (\<lambda>strm. None),
                  handle_stream_impl = (\<lambda>strm addr. None) \<rparr>"

definition wrap_raises :: "exn \<Rightarrow> env" where
  "wrap_raises e = quiet_env\<lparr> ssl_wrap_socket := (\<lambda>conn opts server_side handshake. Inl e) \<rparr>"



section \<open>Properties\<close>

subsection \<open>The registration loop\<close>

lemma add_sockets_loop_calls:
  "snd (add_sockets_loop l reg socks) = map (\<lambda>s. Add_accept_handler s l) socks"
  by (induction socks arbitrary: reg) (simp_all add: case_prod_unfold)

lemma add_sockets_loop_map_of:
  "map_of (fst (add_sockets_loop l reg socks)) =
     map_of reg ++ map_of (rev (map (\<lambda>s. (fileno s, s)) socks))"
proof (induction socks arbitrary: reg)
  case Nil
  show ?case by simp
next
  case (Cons sock rest)
  have "map_of (fst (add_sockets_loop l reg (sock # rest)))
      = map_of (fst (add_sockets_loop l (AList.update (fileno sock) sock reg) rest))"
    by (simp add: case_prod_unfold)
  also have "\<dots> = map_of (AList.update (fileno sock) sock reg)
                    ++ map_of (rev (map (\<lambda>s. (fileno s, s)) rest))"
    by (rule Cons.IH)
  also have "\<dots> = map_of reg ++ map_of (rev (map (\<lambda>s. (fileno s, s)) (sock # rest)))"
    by (simp add: update_conv' map_add_def fun_eq_iff split: option.splits)
  finally show ?case .
qed

lemma add_sockets_loop_keys:
  "fst ` set (fst (add_sockets_loop l reg socks)) = fst ` set reg \<union> fileno ` set socks"
  by (induction socks arbitrary: reg) (auto simp: dom_update case_prod_unfold)

lemma add_sockets_loop_distinct:
  "distinct (map fst reg) \<Longrightarrow> distinct (map fst (fst (add_sockets_loop l reg socks)))"
  by (induction socks arbitrary: reg) (simp_all add: distinct_update case_prod_unfold)

lemma add_sockets_loop_lookup:
  assumes "distinct (map fileno socks)" and "s \<in> set socks"
  shows "map_of (fst (add_sockets_loop l reg socks)) (fileno s) = Some s"
proof -
  have d: "distinct (map fst (rev (map (\<lambda>s. (fileno s, s)) socks)))"
    using assms(1) by (simp add: rev_map[symmetric] comp_def)
  have "(fileno s, s) \<in> set (rev (map (\<lambda>s. (fileno s, s)) socks))"
    using assms(2) by auto
  with d have "map_of (rev (map (\<lambda>s. (fileno s, s)) socks)) (fileno s) = Some s"
    by (rule map_of_is_SomeI)
  then show ?thesis
    by (simp add: add_sockets_loop_map_of map_add_def)
qed


lemma add_sockets_calls:
  "snd (add_sockets current self socks) =
     map (\<lambda>s. Add_accept_handler s (io_loop_or_current current self)) socks"
  by (simp add: add_sockets_def Let_def case_prod_unfold add_sockets_loop_calls)

lemma add_sockets_state:
  "fst (add_sockets current self socks) =
     self\<lparr> io_loop := Some (io_loop_or_current current self),
           sockets := fst (add_sockets_loop (io_loop_or_current current self)
                             (sockets self) socks) \<rparr>"
  by (simp add: add_sockets_def Let_def case_prod_unfold)

lemma count_list_distinct:
  "distinct xs \<Longrightarrow> x \<in> set xs \<Longrightarrow> count_list xs x = 1"
  by (induction xs) auto

subsection \<open>The loop of stop\<close>

lemma stop_loop_Some:
  "stop_loop (Some lp) reg =
     Inr (concat (map (\<lambda>(fd, sock). [Remove_handler lp fd, Sock_close sock]) reg))"
  by (induction reg) auto

lemma stop_returns:
  assumes "io_loop self = Some lp"
  shows "stop self =
     Inr (self, concat (map (\<lambda>(fd, sock). [Remove_handler lp fd, Sock_close sock]) (sockets self)))"
  using assms by (simp add: stop_def stop_loop_Some)

lemma stop_empty: "sockets self = [] \<Longrightarrow> stop self = Inr (self, [])"
  by (simp add: stop_def)

lemma stop_state: "stop self = Inr (self', calls) \<Longrightarrow> self' = self"
  by (auto simp: stop_def split: sum.splits)

subsection \<open>A registry that is not empty has an IOLoop\<close>

text \<open>
  \<open>stop\<close> needs \<open>self.io_loop\<close> for every tracked socket. The constructor starts with an
  empty registry, and the only method that adds to the registry, \<open>add_sockets\<close>, sets
  \<open>io_loop\<close> first; so every server reached from the constructor by \<open>add_sockets\<close>,
  \<open>bind\<close>, \<open>start\<close> and \<open>stop\<close> satisfies \<open>io_loop self \<noteq> None \<or> sockets self = []\<close>.
\<close>

lemma init_state:
  "init path_exists l opts m r = Inr self \<Longrightarrow>
     self = \<lparr> io_loop = l, ssl_options = opts, sockets = [], pending_sockets = [],
              started = False, max_buffer_size = m, read_chunk_size = None \<rparr>"
  by (auto simp: init_def Let_def split: option.splits ssl_options.splits if_splits)

lemma init_registry_empty:
  "init path_exists l opts m r = Inr self \<Longrightarrow> io_loop self \<noteq> None \<or> sockets self = []"
  by (drule init_state) simp

lemma add_sockets_sets_io_loop:
  "io_loop (fst (add_sockets current self socks)) \<noteq> None"
  by (simp add: add_sockets_state)

lemma bind_keeps_io_loop:
  assumes "io_loop self \<noteq> None \<or> sockets self = []"
  shows "io_loop (fst (bind current self socks)) \<noteq> None
         \<or> sockets (fst (bind current self socks)) = []"
  using assms by (simp add: bind_def add_sockets_state)

lemma start_sets_io_loop:
  "start current self n = Inr (self', calls) \<Longrightarrow> io_loop self' \<noteq> None"
  by (auto simp: start_def Let_def add_sockets_def split: if_splits prod.splits)

subsection \<open>stop\<close>




subsection \<open>The accept callback: TLS setup\<close>

text \<open>
  Claim C2, as the code has it. On a server with \<open>ssl_options\<close>, an exception of
  \<open>ssl_wrap_socket\<close> that is neither an SSLError with \<open>SSL_ERROR_EOF\<close> nor a socket
  error with errno ECONNABORTED or EINVAL is raised again and leaves \<open>_handle_connection\<close>:
  the \<open>try\<close> block with the clause \<open>except Exception\<close> comes after it and is not reached,
  so no stream is constructed, the handler is not called and nothing is logged.
\<close>

theorem unexpected_tls_error_propagates:
  assumes "ssl_options self = Some opts" and "ssl_module env"
    and "ssl_wrap_socket env conn opts True False = Inl e"
    and "e \<noteq> SSLError SSL_ERROR_EOF" and "e \<noteq> SocketError (Some ECONNABORTED)"
    and "e \<noteq> SocketError (Some EINVAL)"
  shows "handle_connection env self conn addr = (Inl e, [])"
  using assms by (cases e) (auto simp: handle_connection_def)

theorem unexpected_tls_error_propagates_witness:
  "handle_connection (wrap_raises (SocketError (Some 104))) tls_server 7 peer
     = (Inl (SocketError (Some 104)), [])"
  using unexpected_tls_error_propagates
          [of tls_server SSLContext "wrap_raises (SocketError (Some 104))" 7 _ peer]
  by (simp add: tls_server_def new_server_def wrap_raises_def quiet_env_def
        SSL_ERROR_EOF_def ECONNABORTED_def EINVAL_def)

text \<open>
  Claim C2 as first stated says that such an error does not escape the accept callback
  and is logged. An SSLError whose first argument is 1 (\<open>SSL_ERROR_SSL\<close>) leaves the
  callback, and the callback logs nothing.
\<close>

theorem unexpected_tls_error_counterexample:
  "handle_connection (wrap_raises (SSLError 1)) tls_server 7 peer = (Inl (SSLError 1), [])"
  by (simp add: handle_connection_def tls_server_def new_server_def wrap_raises_def
        quiet_env_def SSL_ERROR_EOF_def)

text \<open>
  Claim C4. On a server with \<open>ssl_options\<close>, when \<open>ssl_wrap_socket\<close> raises an SSLError
  whose first argument is \<open>SSL_ERROR_EOF\<close>, or a socket error whose errno is ECONNABORTED
  or EINVAL, \<open>_handle_connection\<close> closes the connection and returns: that close is its
  only call, so no stream is constructed and \<open>handle_stream\<close> is not called, and no
  exception leaves the callback.
\<close>

theorem benign_tls_failure_closes_quietly:
  assumes "ssl_options self = Some opts" and "ssl_module env"
    and "ssl_wrap_socket env conn opts True False = Inl e"
    and "e = SSLError SSL_ERROR_EOF \<or> e = SocketError (Some ECONNABORTED)
           \<or> e = SocketError (Some EINVAL)"
  shows "handle_connection env self conn addr = (Inr (), [Connection_close conn])"
  using assms by (auto simp: handle_connection_def)

theorem benign_tls_failure_closes_quietly_witness:
  "handle_connection (wrap_raises (SocketError (Some ECONNABORTED))) tls_server 7 peer
     = (Inr (), [Connection_close 7])
   \<and> handle_connection (wrap_raises (SSLError SSL_ERROR_EOF)) tls_server 8 peer
     = (Inr (), [Connection_close 8])"
  using benign_tls_failure_closes_quietly
          [of tls_server SSLContext "wrap_raises (SocketError (Some ECONNABORTED))" 7 _ peer]
        benign_tls_failure_closes_quietly
          [of tls_server SSLContext "wrap_raises (SSLError SSL_ERROR_EOF)" 8 _ peer]
  by (simp add: tls_server_def new_server_def wrap_raises_def quiet_env_def)

subsection \<open>The accept callback: the error boundary\<close>



text \<open>
  Claim C3 fails on the code. The constructor takes \<open>read_chunk_size\<close> and stores
  \<open>None\<close> in its place, while it stores \<open>max_buffer_size\<close> as given, and
  \<open>_handle_connection\<close> passes the stored attribute on: \<open>TCPServer(read_chunk_size=4096)\<close>
  is the same object as \<open>TCPServer()\<close>, and the stream of an accepted connection is
  constructed with \<open>read_chunk_size = None\<close>.
\<close>

theorem read_chunk_size_is_dropped:
  "init every_path_exists None None None (Some 4096) = Inr new_server
   \<and> read_chunk_size new_server = None
   \<and> handle_connection quiet_env listening_server 7 peer
       = (Inr (), [New_stream \<lparr> stream_class = IOStream, stream_connection = 7,
                                stream_io_loop = Some 1, stream_max_buffer_size = None,
                                stream_read_chunk_size = None \<rparr>,
                   Handle_stream \<lparr> stream_class = IOStream, stream_connection = 7,
                                   stream_io_loop = Some 1, stream_max_buffer_size = None,
                                   stream_read_chunk_size = None \<rparr> peer])"
  by (simp add: init_def new_server_def listening_server_def handle_connection_def
        build_and_handle_def stream_args_def quiet_env_def Let_def)




subsection \<open>The constructor\<close>

text \<open>
  Claim C6. For \<open>ssl_options\<close> that are a dict, the constructor raises KeyError when the
  key \<open>certfile\<close> is absent, ValueError when the certificate path does not exist, and
  ValueError when a \<open>keyfile\<close> is given whose path does not exist; in each of the three
  cases it raises. It checks this itself, before it returns an object, and an object it
  returns has an empty registry and an empty queue of pending sockets: no socket exists
  yet.
\<close>

theorem init_validates_ssl_options:
  "(d ''certfile'' = None \<longrightarrow>
      init path_exists l (Some (SSLDict d)) m r = Inl (KeyError ''certfile''))
   \<and> (\<forall>c. d ''certfile'' = Some c \<and> \<not> path_exists c \<longrightarrow>
      init path_exists l (Some (SSLDict d)) m r = Inl (ValueError c))
   \<and> (\<forall>c k. d ''certfile'' = Some c \<and> path_exists c \<and> d ''keyfile'' = Some k \<and> \<not> path_exists k \<longrightarrow>
      init path_exists l (Some (SSLDict d)) m r = Inl (ValueError k))
   \<and> (d ''certfile'' = None \<or> (\<exists>c. d ''certfile'' = Some c \<and> \<not> path_exists c)
        \<or> (\<exists>k. d ''keyfile'' = Some k \<and> \<not> path_exists k) \<longrightarrow>
      (\<exists>e. init path_exists l (Some (SSLDict d)) m r = Inl e))
   \<and> (\<forall>self. init path_exists l opts m r = Inr self \<longrightarrow>
         sockets self = [] \<and> pending_sockets self = [])"
proof (intro conjI allI impI)
  fix self
  assume "init path_exists l opts m r = Inr self"
  then have "self = \<lparr> io_loop = l, ssl_options = opts, sockets = [], pending_sockets = [],
                      started = False, max_buffer_size = m, read_chunk_size = None \<rparr>"
    by (rule init_state)
  then show "sockets self = []" and "pending_sockets self = []"
    by simp_all
qed (auto simp: init_def Let_def split: option.splits)

theorem init_validates_ssl_options_witness:
  "init no_path_exists None (Some (SSLDict [''certfile'' \<mapsto> ''mydomain.crt''])) None None
     = Inl (ValueError ''mydomain.crt'')
   \<and> init every_path_exists None (Some (SSLDict [''keyfile'' \<mapsto> ''mydomain.key''])) None None
     = Inl (KeyError ''certfile'')
   \<and> (\<exists>e. init no_path_exists None
             (Some (SSLDict [''certfile'' \<mapsto> ''mydomain.crt'', ''keyfile'' \<mapsto> ''mydomain.key'']))
             None None = Inl e)"
  using init_validates_ssl_options
          [of "[''certfile'' \<mapsto> ''mydomain.crt'']" no_path_exists None None None]
        init_validates_ssl_options
          [of "[''keyfile'' \<mapsto> ''mydomain.key'']" every_path_exists None None None]
        init_validates_ssl_options
          [of "[''certfile'' \<mapsto> ''mydomain.crt'', ''keyfile'' \<mapsto> ''mydomain.key'']"
              no_path_exists None None None]
  by (simp add: no_path_exists_def every_path_exists_def)

subsection \<open>start, add_sockets and bind\<close>

text \<open>
  Claim C7. A call to \<open>start\<close> on a server that has not started, whose queued sockets
  have descriptors different from one another (as open sockets have), returns. After it
  the queue is empty and the server has started; the calls it made are the fork, when
  \<open>num_processes\<close> is not 1, and then one \<open>add_accept_handler\<close> for each queued socket,
  in the order of the queue, so each queued socket is registered exactly once; and the
  registry holds each queued socket under its descriptor.
\<close>

theorem start_registers_pending:
  assumes "\<not> started self" and "distinct (map fileno (pending_sockets self))"
  shows "\<exists>self'. start current self n
            = Inr (self', (if n \<noteq> Some 1 then [Fork_processes n] else [])
                          @ map (\<lambda>s. Add_accept_handler s (io_loop_or_current current self))
                              (pending_sockets self))
          \<and> pending_sockets self' = []
          \<and> started self'
          \<and> (\<forall>s \<in> set (pending_sockets self).
                 map_of (sockets self') (fileno s) = Some s
               \<and> count_list (map (\<lambda>s. Add_accept_handler s (io_loop_or_current current self))
                                (pending_sockets self))
                    (Add_accept_handler s (io_loop_or_current current self)) = 1)"
proof -
  let ?l = "io_loop_or_current current self"
  let ?self2 = "self\<lparr> started := True, pending_sockets := [] \<rparr>"
  let ?socks = "pending_sockets self"
  let ?self' = "fst (add_sockets current ?self2 ?socks)"
  have l2: "io_loop_or_current current ?self2 = ?l"
    by (simp add: io_loop_or_current_def)
  have run: "start current self n
      = Inr (?self', (if n \<noteq> Some 1 then [Fork_processes n] else [])
                     @ map (\<lambda>s. Add_accept_handler s ?l) ?socks)"
    using assms(1) add_sockets_calls [of current ?self2 ?socks] l2
    by (simp add: start_def Let_def case_prod_unfold)
  have st: "?self' = ?self2\<lparr> io_loop := Some ?l,
                              sockets := fst (add_sockets_loop ?l (sockets self) ?socks) \<rparr>"
    using add_sockets_state [of current ?self2 ?socks] l2 by simp
  have inj: "inj (\<lambda>s. Add_accept_handler s ?l)"
    by (simp add: inj_on_def)
  have dist: "distinct ?socks"
    using assms(2) by (simp add: distinct_map)
  have once: "count_list (map (\<lambda>s. Add_accept_handler s ?l) ?socks) (Add_accept_handler s ?l) = 1"
    if "s \<in> set ?socks" for s
    using count_list_distinct [OF dist that] by (simp add: count_list_map_conv [OF inj])
  have keyed: "map_of (sockets ?self') (fileno s) = Some s" if "s \<in> set ?socks" for s
    using st add_sockets_loop_lookup [OF assms(2) that] by simp
  from run st once keyed show ?thesis
    by (intro exI [of _ ?self']) simp
qed

theorem start_registers_pending_witness:
  "\<exists>self'. start 1 bound_server (Some 1)
       = Inr (self', [Add_accept_handler (Socket 0 5) 1, Add_accept_handler (Socket 1 6) 1])
     \<and> pending_sockets self' = []
     \<and> map_of (sockets self') 5 = Some (Socket 0 5)
     \<and> map_of (sockets self') 6 = Some (Socket 1 6)"
proof -
  have h1: "\<not> started bound_server"
    by (simp add: bound_server_def new_server_def)
  have h2: "distinct (map fileno (pending_sockets bound_server))"
    by (simp add: bound_server_def new_server_def)
  from start_registers_pending [OF h1 h2, of 1 "Some 1"] show ?thesis
    by (simp add: bound_server_def new_server_def io_loop_or_current_def) blast
qed




text \<open>
  Claim C9. On a server that has not started, \<open>bind\<close> appends the sockets it bound to
  the queue of pending sockets, changes nothing else and makes no call: nothing is
  registered. On a server that has started, \<open>bind\<close> calls \<open>add_accept_handler\<close> for each
  of the sockets at once, enters their descriptors in the registry and leaves the queue
  as it was.
\<close>

theorem bind_queues_or_registers:
  "(\<not> started self \<longrightarrow>
      bind current self socks
        = (self\<lparr> pending_sockets := pending_sockets self @ socks \<rparr>, []))
   \<and> (started self \<longrightarrow>
      (\<exists>self'. bind current self socks
                 = (self', map (\<lambda>s. Add_accept_handler s (io_loop_or_current current self)) socks)
             \<and> pending_sockets self' = pending_sockets self
             \<and> fileno ` set socks \<subseteq> fst ` set (sockets self')))"
proof (intro conjI impI)
  assume "\<not> started self"
  then show "bind current self socks
               = (self\<lparr> pending_sockets := pending_sockets self @ socks \<rparr>, [])"
    by (simp add: bind_def)
next
  assume s: "started self"
  let ?self' = "fst (add_sockets current self socks)"
  have "bind current self socks
          = (?self', map (\<lambda>s. Add_accept_handler s (io_loop_or_current current self)) socks)"
    using s add_sockets_calls [of current self socks] by (simp add: bind_def prod_eq_iff)
  moreover have "pending_sockets ?self' = pending_sockets self"
    by (simp add: add_sockets_state)
  moreover have "fileno ` set socks \<subseteq> fst ` set (sockets ?self')"
    by (simp add: add_sockets_state add_sockets_loop_keys)
  ultimately show "\<exists>self'. bind current self socks
                 = (self', map (\<lambda>s. Add_accept_handler s (io_loop_or_current current self)) socks)
             \<and> pending_sockets self' = pending_sockets self
             \<and> fileno ` set socks \<subseteq> fst ` set (sockets self')"
    by blast
qed

theorem bind_queues_or_registers_witness:
  "bind 1 new_server [Socket 0 5, Socket 1 6] = (bound_server, [])
   \<and> (\<exists>self'. bind 1 started_server [Socket 1 6] = (self', [Add_accept_handler (Socket 1 6) 1])
              \<and> pending_sockets self' = []
              \<and> 6 \<in> fst ` set (sockets self'))"
  using bind_queues_or_registers [of new_server 1 "[Socket 0 5, Socket 1 6]"]
        bind_queues_or_registers [of started_server 1 "[Socket 1 6]"]
  by (simp add: new_server_def bound_server_def started_server_def listening_server_def
        io_loop_or_current_def)

subsection \<open>What stop leaves alone\<close>

text \<open>
  Claim C10. A call to \<open>stop\<close> on a server whose registry has an IOLoop returns with the
  queue of pending sockets and the flag \<open>started\<close> as they were. Every call it makes
  removes the handler of a descriptor of the registry or closes a socket of the registry:
  a pending socket that is not in the registry is not closed, and a pending socket whose
  descriptor is not in the registry is not deregistered.
\<close>

theorem stop_frame:
  assumes "io_loop self \<noteq> None \<or> sockets self = []"
  shows "\<exists>self' calls. stop self = Inr (self', calls)
           \<and> pending_sockets self' = pending_sockets self
           \<and> started self' = started self
           \<and> (\<forall>c \<in> set calls. \<exists>l fd sock. (fd, sock) \<in> set (sockets self)
                                  \<and> (c = Remove_handler l fd \<or> c = Sock_close sock))
           \<and> (\<forall>s \<in> set (pending_sockets self).
                  (s \<notin> snd ` set (sockets self) \<longrightarrow> Sock_close s \<notin> set calls)
                \<and> (fileno s \<notin> fst ` set (sockets self)
                     \<longrightarrow> (\<forall>l. Remove_handler l (fileno s) \<notin> set calls)))"
proof (cases "io_loop self")
  case None
  with assms have "sockets self = []" by simp
  then show ?thesis by (simp add: stop_empty)
next
  case (Some lp)
  then show ?thesis by (force simp: stop_returns)
qed

theorem stop_frame_witness:
  "\<exists>calls. stop (listening_server\<lparr> pending_sockets := [Socket 1 6] \<rparr>)
              = Inr (listening_server\<lparr> pending_sockets := [Socket 1 6] \<rparr>, calls)
           \<and> Sock_close (Socket 1 6) \<notin> set calls
           \<and> (\<forall>l. Remove_handler l 6 \<notin> set calls)"
proof -
  let ?s = "listening_server\<lparr> pending_sockets := [Socket 1 6] \<rparr>"
  have h: "io_loop ?s \<noteq> None \<or> sockets ?s = []"
    by (simp add: listening_server_def new_server_def)
  from stop_frame [OF h] obtain self' calls where
    r: "stop ?s = Inr (self', calls)" and
    f: "\<forall>s \<in> set (pending_sockets ?s).
          (s \<notin> snd ` set (sockets ?s) \<longrightarrow> Sock_close s \<notin> set calls)
        \<and> (fileno s \<notin> fst ` set (sockets ?s) \<longrightarrow> (\<forall>l. Remove_handler l (fileno s) \<notin> set calls))"
    by blast
  from r have "self' = ?s" by (rule stop_state)
  moreover from f have "Sock_close (Socket 1 6) \<notin> set calls \<and> (\<forall>l. Remove_handler l 6 \<notin> set calls)"
    by (simp add: listening_server_def new_server_def)
  ultimately show ?thesis using r by blast
qed

end
